theory Spec2Isabelle
  imports Main "HOL-Library.Word" "HOL-Library.Sublist" "HOL-Library.Log_Nat"
begin

section \<open>Token-budget accounting of the chat client (src/utils/messageUtils.ts)\<close>

subsection \<open>Strings and messages\<close>

text \<open>
  A JavaScript string is a sequence of UTF-16 code units. The regular expression of
  \<open>toHalfWidth\<close> has no \<open>u\<close> flag, so it matches code unit by code unit, and
  \<open>length\<close> counts code units.
\<close>

type_synonym code_unit = "16 word"
type_synonym js_string = "code_unit list"

text \<open>An ASCII literal of the source, as code units.\<close>

definition js :: "string \<Rightarrow> js_string" where
  "js s = map of_char s"

subsection \<open>Text normalizer: \<open>toHalfWidth\<close>\<close>

text \<open>
  The character class of \<open>fullWidthSymbolsRegex\<close>: the three ranges
  U+FF21..U+FF3A, U+FF41..U+FF5A, U+FF10..U+FF19, then the single characters in the
  order in which the source lists them.
\<close>

definition fullWidthSymbolsRegex :: "code_unit \<Rightarrow> bool" where
  "fullWidthSymbolsRegex c \<longleftrightarrow>
     (0xFF21 \<le> c \<and> c \<le> 0xFF3A) \<or> (0xFF41 \<le> c \<and> c \<le> 0xFF5A) \<or>
     (0xFF10 \<le> c \<and> c \<le> 0xFF19) \<or>
     c \<in> set [
        0xFF08, 0xFF09, 0xFF3B, 0xFF3D, 0xFF5B, 0xFF5D, 0xFF1C, 0xFF1E,
        0xFF06, 0xFF03, 0xFF20, 0xFF0A, 0xFF0B, 0xFF0D, 0xFF1D, 0xFF5E,
        0xFF01, 0xFF05, 0xFF07, 0xFF02, 0xFF0C, 0xFF0E, 0xFF0F, 0xFF1A,
        0xFF1B, 0xFF1F, 0xFF3C, 0xFF3E, 0xFF3F, 0xFF40, 0xFF5C, 0xFFE3]"

text \<open>
  The object literal \<open>halfWidthSymbolsMapping\<close>, entry by entry in source order (its
  keys are pairwise distinct). Each value is the string the key is replaced by.
\<close>

definition halfWidthSymbolsMapping :: "(code_unit \<times> js_string) list" where
  "halfWidthSymbolsMapping = [
     (0xFF21, [0x41]), (0xFF22, [0x42]), (0xFF23, [0x43]), (0xFF24, [0x44]), (0xFF25, [0x45]),
     (0xFF26, [0x46]), (0xFF27, [0x47]), (0xFF28, [0x48]), (0xFF29, [0x49]), (0xFF2A, [0x4A]),
     (0xFF2B, [0x4B]), (0xFF2C, [0x4C]), (0xFF2D, [0x4D]), (0xFF2E, [0x4E]), (0xFF2F, [0x4F]),
     (0xFF30, [0x50]), (0xFF31, [0x51]), (0xFF32, [0x52]), (0xFF33, [0x53]), (0xFF34, [0x54]),
     (0xFF35, [0x55]), (0xFF36, [0x56]), (0xFF37, [0x57]), (0xFF38, [0x58]), (0xFF39, [0x59]),
     (0xFF3A, [0x5A]), (0xFF41, [0x61]), (0xFF42, [0x62]), (0xFF43, [0x63]), (0xFF44, [0x64]),
     (0xFF45, [0x65]), (0xFF46, [0x66]), (0xFF47, [0x67]), (0xFF48, [0x68]), (0xFF49, [0x69]),
     (0xFF4A, [0x6A]), (0xFF4B, [0x6B]), (0xFF4C, [0x6C]), (0xFF4D, [0x6D]), (0xFF4E, [0x6E]),
     (0xFF4F, [0x6F]), (0xFF50, [0x70]), (0xFF51, [0x71]), (0xFF52, [0x72]), (0xFF53, [0x73]),
     (0xFF54, [0x74]), (0xFF55, [0x75]), (0xFF56, [0x76]), (0xFF57, [0x77]), (0xFF58, [0x78]),
     (0xFF59, [0x79]), (0xFF5A, [0x7A]), (0xFF10, [0x30]), (0xFF11, [0x31]), (0xFF12, [0x32]),
     (0xFF13, [0x33]), (0xFF14, [0x34]), (0xFF15, [0x35]), (0xFF16, [0x36]), (0xFF17, [0x37]),
     (0xFF18, [0x38]), (0xFF19, [0x39]), (0xFF08, [0x28]), (0xFF09, [0x29]), (0xFF3B, [0x5B]),
     (0xFF3D, [0x5D]), (0xFF5B, [0x7B]), (0xFF5D, [0x7D]), (0xFF1C, [0x3C]), (0xFF1E, [0x3E]),
     (0xFF06, [0x26]), (0xFF03, [0x23]), (0xFF20, [0x40]), (0xFF0A, [0x2A]), (0xFF0B, [0x2B]),
     (0xFF0D, [0x2D]), (0xFF1D, [0x3D]), (0xFF5E, [0x7E]), (0xFF01, [0x21]), (0xFF05, [0x25]),
     (0xFF07, [0x27]), (0xFF02, [0x22]), (0xFF0C, [0x2C]), (0xFF0E, [0x2E]), (0xFF0F, [0x2F]),
     (0xFF1A, [0x3A]), (0xFF1B, [0x3B]), (0xFF1F, [0x3F]), (0xFF3C, [0x5C]), (0xFF3E, [0x5E]),
     (0xFF3F, [0x5F]), (0xFF40, [0x60]), (0xFF5C, [0x7C]), (0xFFE3, [0x7E])]"

text \<open>
  The module-level table \<open>halfWidthMap\<close> (curly quotes to straight quotes). No function
  of the module reads it.
\<close>

definition halfWidthMap :: "(code_unit \<times> js_string) list" where
  "halfWidthMap = [(0x201C, [0x22]), (0x201D, [0x22]), (0x2018, [0x27]), (0x2019, [0x27])]"

text \<open>
  The replacer callback \<open>(match) => halfWidthSymbolsMapping[match] || match\<close>: a missing
  key gives \<open>undefined\<close> and an empty string is falsy, and both fall back to the match.
\<close>

definition replacer :: "code_unit \<Rightarrow> js_string" where
  "replacer match =
     (case map_of halfWidthSymbolsMapping match of
        None \<Rightarrow> [match]
      | Some s \<Rightarrow> if s = [] then [match] else s)"

text \<open>\<open>text.replace(fullWidthSymbolsRegex, replacer)\<close> with the global flag.\<close>

definition toHalfWidth :: "js_string \<Rightarrow> js_string" where
  "toHalfWidth text =
     concat (map (\<lambda>c. if fullWidthSymbolsRegex c then replacer c else [c]) text)"

text \<open>What one code unit of the input contributes to the output of \<open>toHalfWidth\<close>.\<close>

definition norm_unit :: "code_unit \<Rightarrow> js_string" where
  "norm_unit c = (if fullWidthSymbolsRegex c then replacer c else [c])"

subsection \<open>Messages, models and the external encoder\<close>

text \<open>
  Modelled from the spec: the type \<open>MessageInterface\<close> is imported from \<open>@type/chat\<close>,
  which is not part of the sources at hand. The spec gives a message as
  \<open>{ role: enum{system, user, assistant}, content: text }\<close>; the template literal of the
  serializer renders the role as its lower-case name.
\<close>

datatype Role = System | User | Assistant

fun role_str :: "Role \<Rightarrow> js_string" where
  "role_str System = js ''system''"
| "role_str User = js ''user''"
| "role_str Assistant = js ''assistant''"

record MessageInterface =
  role :: Role
  content :: js_string

text \<open>
  \<open>ModelOptions\<close> is a model identifier; the module only compares it with the string
  \<open>'gpt-3.5-turbo'\<close>.
\<close>

type_synonym ModelOptions = js_string

text \<open>
  The tokenizer (\<open>encoder.encode(text, 'all')\<close> of the tiktoken library) is external to
  the module. It is a parameter of every function that counts: a function from the
  serialized prompt to its sequence of token ids.
\<close>

type_synonym encoder = "js_string \<Rightarrow> nat list"

datatype error = TypeError

subsection \<open>Prompt serializer and token counter\<close>

text \<open>\<open>Array.prototype.join\<close> on an array of strings.\<close>

fun join :: "js_string \<Rightarrow> js_string list \<Rightarrow> js_string" where
  "join sep [] = []"
| "join sep [x] = x"
| "join sep (x # y # ys) = x @ sep @ join sep (y # ys)"

text \<open>The string \<open>serialized\<close> that \<open>getChatGPTEncoding\<close> builds and hands to the encoder.\<close>

definition serialized :: "MessageInterface list \<Rightarrow> ModelOptions \<Rightarrow> js_string" where
  "serialized messages model =
     (let isGpt3 = (model = js ''gpt-3.5-turbo'');
          msgSep = (if isGpt3 then [0x0A] else []);
          roleSep = (if isGpt3 then [0x0A] else js ''<|im_sep|>'')
      in join msgSep
           [join msgSep
              (map (\<lambda>m. let content' = toHalfWidth (content m)
                        in js ''<|im_start|>'' @ role_str (role m) @ roleSep @ content'
                             @ js ''<|im_end|>'')
                 messages),
            js ''<|im_start|>assistant'' @ roleSep])"

definition getChatGPTEncoding :: "encoder \<Rightarrow> MessageInterface list \<Rightarrow> ModelOptions \<Rightarrow> nat list" where
  "getChatGPTEncoding encode messages model = encode (serialized messages model)"

definition countTokens :: "encoder \<Rightarrow> MessageInterface list \<Rightarrow> ModelOptions \<Rightarrow> nat" where
  "countTokens encode messages model =
     (if length messages = 0 then 0
      else length (getChatGPTEncoding encode messages model))"

text \<open>
  \<open>countTokens([x], model)\<close> for an array element \<open>x\<close> that may be \<open>undefined\<close>
  (\<open>None\<close>). The one-element array is not empty, so the serializer runs, and its map
  callback destructures \<open>{ role, content }\<close> from the element: on \<open>undefined\<close> that
  raises a TypeError.
\<close>

fun countTokens_elem :: "encoder \<Rightarrow> MessageInterface option \<Rightarrow> ModelOptions \<Rightarrow> error + nat" where
  "countTokens_elem encode None model = Inl TypeError"
| "countTokens_elem encode (Some m) model = Inr (countTokens encode [m] model)"

subsection \<open>Budget-constrained selector: \<open>limitMessageTokens\<close>\<close>

text \<open>\<open>messages[0]\<close>: \<open>undefined\<close> (\<open>None\<close>) on the empty array.\<close>

fun first_message :: "MessageInterface list \<Rightarrow> MessageInterface option" where
  "first_message [] = None"
| "first_message (m # ms) = Some m"

text \<open>
  The reverse loop \<open>for (let i = messages.length - 1; i >= 1; i--)\<close>. The first argument
  after the parameters is the loop index \<open>i\<close>; the state is the pair
  \<open>(tokenCount, limitedMessages)\<close>. The loop ends at \<open>i = 0\<close> and at \<open>break\<close>.
  Every index it reads is below \<open>messages.length\<close>.
\<close>

fun reverse_scan ::
  "encoder \<Rightarrow> MessageInterface list \<Rightarrow> int \<Rightarrow> ModelOptions \<Rightarrow> nat
     \<Rightarrow> int \<times> MessageInterface list \<Rightarrow> int \<times> MessageInterface list" where
  "reverse_scan encode messages limit model 0 state = state"
| "reverse_scan encode messages limit model (Suc j) (tokenCount, limitedMessages) =
     (let i = Suc j;
          count = int (countTokens encode [messages ! i] model)
      in if count + tokenCount > limit then (tokenCount, limitedMessages)
         else reverse_scan encode messages limit model j
                (tokenCount + count, (messages ! i) # limitedMessages))"

text \<open>
  \<open>xs.splice(-3, 0, x)\<close>: a negative start counts from the end and is clamped at 0;
  nothing is deleted and \<open>x\<close> is inserted at the start index.
\<close>

definition splice_minus3 :: "'a list \<Rightarrow> 'a \<Rightarrow> 'a list" where
  "splice_minus3 xs x =
     (let start = nat (max (int (length xs) - 3) 0)
      in take start xs @ [x] @ drop start xs)"

text \<open>The final \<open>forEach\<close>: every selected copy gets its content normalized.\<close>

definition to_half_width_all :: "MessageInterface list \<Rightarrow> MessageInterface list" where
  "to_half_width_all ms = map (\<lambda>message. message\<lparr>content := toHalfWidth (content message)\<rparr>) ms"

text \<open>
  The parameter declaration \<open>limit: number = 4096\<close>: the default applies when the
  caller leaves the argument out (\<open>None\<close>).
\<close>

definition effective_limit :: "int option \<Rightarrow> int" where
  "effective_limit limit_arg = (case limit_arg of None \<Rightarrow> 4096 | Some l \<Rightarrow> l)"

text \<open>The selector. The result is \<open>Inl\<close> when the call raises.\<close>

definition limitMessageTokens ::
  "encoder \<Rightarrow> MessageInterface list \<Rightarrow> int option \<Rightarrow> ModelOptions
     \<Rightarrow> error + MessageInterface list" where
  "limitMessageTokens encode messages limit_arg model =
     (let limit = effective_limit limit_arg;
          isSystemFirstMessage =
            (case first_message messages of None \<Rightarrow> False | Some m \<Rightarrow> role m = System)
      in case (if isSystemFirstMessage
               then case countTokens_elem encode (first_message messages) model of
                      Inl e \<Rightarrow> Inl e
                    | Inr systemTokenCount \<Rightarrow>
                        if int systemTokenCount < limit
                        then Inr (int systemTokenCount, True)
                        else Inr (0, False)
               else Inr (0, False)) of
           Inl e \<Rightarrow> Inl e
         | Inr (tokenCount0, retainSystemMessage) \<Rightarrow>
             (case reverse_scan encode messages limit model (length messages - 1)
                     (tokenCount0, []) of
                (tokenCount, limitedMessages) \<Rightarrow>
                  if retainSystemMessage
                  then Inr (to_half_width_all
                              (splice_minus3 limitedMessages (the (first_message messages))))
                  else if \<not> isSystemFirstMessage
                  then case countTokens_elem encode (first_message messages) model of
                         Inl e \<Rightarrow> Inl e
                       | Inr firstMessageTokenCount \<Rightarrow>
                           if int firstMessageTokenCount + tokenCount < limit
                           then Inr (to_half_width_all
                                       (the (first_message messages) # limitedMessages))
                           else Inr (to_half_width_all limitedMessages)
                  else Inr (to_half_width_all limitedMessages)))"

subsection \<open>Usage accumulator: \<open>updateTotalTokenUsed\<close>\<close>

text \<open>
  Modelled from the spec: the type \<open>TotalTokenUsed\<close> is imported from \<open>@type/chat\<close> and
  the store from \<open>@store/store\<close>, neither of which is part of the sources at hand. The
  spec gives the totals as a mapping from the model to
  \<open>{ promptTokens: integer, completionTokens: integer }\<close>; a field may be missing
  (\<open>None\<close>), which the destructuring defaults read as 0. The store state that
  \<open>getState().totalTokenUsed\<close> reads and \<open>setTotalTokenUsed\<close> replaces is passed in and
  returned.
\<close>

record TokenUsage =
  promptTokens :: "int option"
  completionTokens :: "int option"

text \<open>
  A JavaScript number is an IEEE-754 double. An integer is a double when it fits a
  significand of 53 bits; \<open>round_double\<close> gives the double nearest to an integer, a tie
  going to the even significand. Below \<open>2 ^ 53\<close> in magnitude every integer is a double.
\<close>

definition round_double :: "int \<Rightarrow> int" where
  "round_double n =
     (let a = \<bar>n\<bar>
      in if a < 2 ^ 53 then n
         else let e = nat (bitlen a - 53);
                  q = a div 2 ^ e;
                  r = a mod 2 ^ e;
                  q' = (if 2 * r > 2 ^ e \<or> (2 * r = 2 ^ e \<and> odd q) then q + 1 else q)
              in sgn n * (q' * 2 ^ e))"

text \<open>
  The operator \<open>+\<close> on two integer-valued numbers: the exact sum, rounded to a double.
  (The sum of a finite double and an array length is below the overflow threshold of
  the doubles, so the result is finite.)
\<close>

definition js_add :: "int \<Rightarrow> int \<Rightarrow> int" where
  "js_add x y = round_double (x + y)"

type_synonym TotalTokenUsed = "ModelOptions \<rightharpoonup> TokenUsage"

definition updateTotalTokenUsed ::
  "encoder \<Rightarrow> ModelOptions \<Rightarrow> MessageInterface list \<Rightarrow> MessageInterface
     \<Rightarrow> TotalTokenUsed \<Rightarrow> TotalTokenUsed" where
  "updateTotalTokenUsed encode model promptMessages completionMessage totalTokenUsed =
     (let updatedTotalTokenUsed = totalTokenUsed;
          newPromptTokens = int (countTokens encode promptMessages model);
          newCompletionTokens = int (countTokens encode [completionMessage] model);
          entry = (case updatedTotalTokenUsed model of
                     None \<Rightarrow> \<lparr>promptTokens = None, completionTokens = None\<rparr>
                   | Some e \<Rightarrow> e);
          promptTokens0 = (case promptTokens entry of None \<Rightarrow> 0 | Some n \<Rightarrow> n);
          completionTokens0 = (case completionTokens entry of None \<Rightarrow> 0 | Some n \<Rightarrow> n)
      in updatedTotalTokenUsed(model \<mapsto>
           \<lparr>promptTokens = Some (js_add promptTokens0 newPromptTokens),
            completionTokens = Some (js_add completionTokens0 newCompletionTokens)\<rparr>))"

subsection \<open>Auxiliary notions for the statements below\<close>

text \<open>The count the selector computes for one message: \<open>countTokens([m], model)\<close>.\<close>

definition msg_count :: "encoder \<Rightarrow> ModelOptions \<Rightarrow> MessageInterface \<Rightarrow> int" where
  "msg_count encode model m = int (countTokens encode [m] model)"

text \<open>The sum of the single-message counts of a list of messages.\<close>

definition total_count :: "encoder \<Rightarrow> ModelOptions \<Rightarrow> MessageInterface list \<Rightarrow> int" where
  "total_count encode model ms = sum_list (map (msg_count encode model) ms)"

text \<open>
  What the bound on the selected prompt needs from the external tokenizer: counting a
  list of messages in one prompt never gives more than counting each message in a prompt
  of its own and adding up. (Every single-message prompt carries the open assistant turn
  that the joint prompt carries once.)
\<close>

definition subadditive :: "encoder \<Rightarrow> ModelOptions \<Rightarrow> bool" where
  "subadditive encode model \<longleftrightarrow>
     (\<forall>ms. int (countTokens encode ms model) \<le> total_count encode model ms)"

text \<open>
  The shape of the selector's output in the words of the spec: a contiguous suffix of
  the input history, optionally prefixed by the input's first message if and only if
  that first message has role \<open>system\<close>.
\<close>

definition spec_output_shape :: "MessageInterface list \<Rightarrow> MessageInterface list \<Rightarrow> bool" where
  "spec_output_shape messages out \<longleftrightarrow>
     out \<in> set (suffixes messages) \<or>
     (case messages of
        [] \<Rightarrow> False
      | m0 # _ \<Rightarrow> role m0 = System \<and>
          (case out of [] \<Rightarrow> False | x # xs \<Rightarrow> x = m0 \<and> xs \<in> set (suffixes messages)))"

text \<open>
  The totals the accumulator reads for a model: a missing entry and a missing field
  count as 0.
\<close>

definition stored_prompt :: "TotalTokenUsed \<Rightarrow> ModelOptions \<Rightarrow> int" where
  "stored_prompt totals model =
     (case totals model of
        None \<Rightarrow> 0
      | Some e \<Rightarrow> (case promptTokens e of None \<Rightarrow> 0 | Some n \<Rightarrow> n))"

definition stored_completion :: "TotalTokenUsed \<Rightarrow> ModelOptions \<Rightarrow> int" where
  "stored_completion totals model =
     (case totals model of
        None \<Rightarrow> 0
      | Some e \<Rightarrow> (case completionTokens e of None \<Rightarrow> 0 | Some n \<Rightarrow> n))"

text \<open>
  A stand-in for the external tokenizer in concrete evaluations: one token per code unit.
\<close>

definition char_encoder :: encoder where
  "char_encoder text = map unat text"

section \<open>The text normalizer\<close>

lemma mapping_values:
  "\<forall>(k, v) \<in> set halfWidthSymbolsMapping. \<exists>a. v = [a] \<and> a < 0x80"
  by (simp add: halfWidthSymbolsMapping_def)

lemma replacer_cases:
  "replacer c = [c] \<or> (\<exists>a. replacer c = [a] \<and> a < 0x80)"
proof (cases "map_of halfWidthSymbolsMapping c")
  case None
  then show ?thesis by (simp add: replacer_def)
next
  case (Some s)
  then have "(c, s) \<in> set halfWidthSymbolsMapping" by (rule map_of_SomeD)
  with mapping_values obtain a where "s = [a]" "a < 0x80" by blast
  with Some show ?thesis by (simp add: replacer_def)
qed

lemma ascii_not_fullWidth: "a < 0x80 \<Longrightarrow> \<not> fullWidthSymbolsRegex a"
  by (auto simp add: fullWidthSymbolsRegex_def word_less_nat_alt word_le_nat_alt)

lemma toHalfWidth_Nil: "toHalfWidth [] = []"
  by (simp add: toHalfWidth_def)

lemma toHalfWidth_Cons: "toHalfWidth (c # cs) = norm_unit c @ toHalfWidth cs"
  by (simp add: toHalfWidth_def norm_unit_def)

lemma toHalfWidth_append: "toHalfWidth (xs @ ys) = toHalfWidth xs @ toHalfWidth ys"
  by (simp add: toHalfWidth_def)

lemma toHalfWidth_unit: "toHalfWidth (norm_unit c) = norm_unit c"
  using replacer_cases [of c]
  by (auto simp add: toHalfWidth_def norm_unit_def ascii_not_fullWidth)

lemma length_norm_unit: "length (norm_unit c) = 1"
  using replacer_cases [of c] by (auto simp add: norm_unit_def)

lemma toHalfWidth_twice: "toHalfWidth (toHalfWidth s) = toHalfWidth s"
proof (induction s)
  case Nil
  show ?case by (simp add: toHalfWidth_Nil)
next
  case (Cons c cs)
  then show ?case by (simp add: toHalfWidth_Cons toHalfWidth_append toHalfWidth_unit)
qed

lemma toHalfWidth_same_length: "length (toHalfWidth s) = length s"
  by (induction s) (simp_all add: toHalfWidth_Nil toHalfWidth_Cons length_norm_unit)

text \<open>
  Claim C8. Normalization is idempotent: normalizing a text that is already normalized
  gives the same text.
\<close>

theorem normalize_idempotent: "toHalfWidth (toHalfWidth text) = toHalfWidth text"
proof (induction "text")
  case Nil
  show ?case by (simp add: toHalfWidth_Nil)
next
  case (Cons c cs)
  have "toHalfWidth (toHalfWidth (c # cs))
      = toHalfWidth (norm_unit c) @ toHalfWidth (toHalfWidth cs)"
    by (simp add: toHalfWidth_Cons toHalfWidth_append)
  also have "\<dots> = norm_unit c @ toHalfWidth cs"
    by (simp add: toHalfWidth_unit Cons.IH)
  finally show ?case by (simp add: toHalfWidth_Cons)
qed

text \<open>
  Claim C10. Normalization preserves the length of the text in UTF-16 code units: each
  matched code unit is replaced by a string of exactly one code unit, every other code
  unit is kept.
\<close>

theorem normalize_preserves_length: "length (toHalfWidth text) = length text"
proof (induction "text")
  case Nil
  show ?case by (simp add: toHalfWidth_Nil)
next
  case (Cons c cs)
  then show ?case by (simp add: toHalfWidth_Cons length_norm_unit)
qed

text \<open>
  Claim C5. The claim is that the four curly quotes become straight quotes, so that the
  text of a left curly double quote, \<open>test\<close> and a right curly double quote normalizes to
  \<open>"test"\<close>. The regular expression of \<open>toHalfWidth\<close> does not match the curly quotes and
  the table \<open>halfWidthMap\<close> that holds them is never read: the text comes back unchanged.
\<close>

theorem curly_quotes_unchanged:
  "toHalfWidth [0x201C, 0x74, 0x65, 0x73, 0x74, 0x201D]
     = [0x201C, 0x74, 0x65, 0x73, 0x74, 0x201D]"
  by (simp add: toHalfWidth_def fullWidthSymbolsRegex_def)

section \<open>The prompt serializer\<close>

lemma join_map_concat:
  "xs \<noteq> [] \<Longrightarrow> join sep xs @ sep = concat (map (\<lambda>x. x @ sep) xs)"
  by (induction sep xs rule: join.induct) simp_all

lemma serialized_gpt3:
  "serialized messages (js ''gpt-3.5-turbo'') =
     (if messages = [] then [0x0A]
      else concat (map (\<lambda>m. js ''<|im_start|>'' @ role_str (role m) @ [0x0A]
                              @ toHalfWidth (content m) @ js ''<|im_end|>'' @ [0x0A]) messages))
     @ js ''<|im_start|>assistant'' @ [0x0A]"
proof (cases "messages = []")
  case True
  then show ?thesis by (simp add: serialized_def)
next
  case False
  then have "map (\<lambda>m. js ''<|im_start|>'' @ role_str (role m) @ [0x0A]
                              @ toHalfWidth (content m) @ js ''<|im_end|>'') messages \<noteq> []"
    by simp
  from join_map_concat [OF this, of "[0x0A]"] False show ?thesis
    by (simp add: serialized_def Let_def comp_def)
qed

lemma join_empty_sep: "join [] xs = concat xs"
  by (induction "[] :: js_string" xs rule: join.induct) simp_all

lemma serialized_other:
  "model \<noteq> js ''gpt-3.5-turbo'' \<Longrightarrow>
   serialized messages model =
     concat (map (\<lambda>m. js ''<|im_start|>'' @ role_str (role m) @ js ''<|im_sep|>''
                          @ toHalfWidth (content m) @ js ''<|im_end|>'') messages)
     @ js ''<|im_start|>assistant'' @ js ''<|im_sep|>''"
  by (simp add: serialized_def Let_def join_empty_sep)

lemma serialized_concat:
  "\<exists>f tr. \<forall>ms. ms \<noteq> [] \<longrightarrow> serialized ms model = concat (map f ms) @ tr"
proof (cases "model = js ''gpt-3.5-turbo''")
  case True
  show ?thesis
    unfolding True
    by (intro exI [of _ "\<lambda>m. js ''<|im_start|>'' @ role_str (role m) @ [0x0A]
                              @ toHalfWidth (content m) @ js ''<|im_end|>'' @ [0x0A]"]
              exI [of _ "js ''<|im_start|>assistant'' @ [0x0A]"])
       (simp add: serialized_gpt3)
next
  case False
  then show ?thesis
    by (intro exI [of _ "\<lambda>m. js ''<|im_start|>'' @ role_str (role m) @ js ''<|im_sep|>''
                          @ toHalfWidth (content m) @ js ''<|im_end|>''"]
              exI [of _ "js ''<|im_start|>assistant'' @ js ''<|im_sep|>''"])
       (simp add: serialized_other)
qed

section \<open>The selector\<close>

lemma total_count_append:
  "total_count encode model (xs @ ys) = total_count encode model xs + total_count encode model ys"
  by (simp add: total_count_def)

lemma total_count_single: "total_count encode model [m] = msg_count encode model m"
  by (simp add: total_count_def)

lemma reverse_scan_segment:
  "j < length messages \<Longrightarrow>
   \<exists>k\<le>j. reverse_scan encode messages limit model j (t, kept) =
           (t + total_count encode model (drop (Suc k) (take (Suc j) messages)),
            drop (Suc k) (take (Suc j) messages) @ kept)
       \<and> (\<forall>i. k < i \<and> i \<le> j \<longrightarrow>
             t + total_count encode model (drop i (take (Suc j) messages)) \<le> limit)
       \<and> (0 < k \<longrightarrow>
             limit < msg_count encode model (messages ! k)
                       + (t + total_count encode model (drop (Suc k) (take (Suc j) messages))))"
proof (induction j arbitrary: t kept)
  case 0
  then show ?case by (simp add: total_count_def)
next
  case (Suc j)
  define m where "m = messages ! Suc j"
  define pre where "pre = take (Suc j) messages"
  from Suc.prems have tk: "take (Suc (Suc j)) messages = pre @ [m]"
    by (simp add: pre_def m_def take_Suc_conv_app_nth)
  from Suc.prems have len: "length pre = Suc j" by (simp add: pre_def)
  show ?case
  proof (cases "limit < msg_count encode model m + t")
    case True
    then have "reverse_scan encode messages limit model (Suc j) (t, kept) = (t, kept)"
      by (simp add: m_def msg_count_def)
    with True show ?thesis
      by (intro exI [of _ "Suc j"]) (simp add: tk len total_count_def m_def)
  next
    case False
    then have step: "reverse_scan encode messages limit model (Suc j) (t, kept) =
        reverse_scan encode messages limit model j (t + msg_count encode model m, m # kept)"
      by (simp add: m_def msg_count_def Let_def)
    from Suc.prems have "j < length messages" by simp
    from Suc.IH [OF this, of "t + msg_count encode model m" "m # kept"]
    obtain k where k: "k \<le> j"
      and res: "reverse_scan encode messages limit model j (t + msg_count encode model m, m # kept) =
           (t + msg_count encode model m + total_count encode model (drop (Suc k) pre),
            drop (Suc k) pre @ m # kept)"
      and acc: "\<forall>i. k < i \<and> i \<le> j \<longrightarrow>
             t + msg_count encode model m + total_count encode model (drop i pre) \<le> limit"
      and brk: "0 < k \<longrightarrow>
             limit < msg_count encode model (messages ! k)
                       + (t + msg_count encode model m + total_count encode model (drop (Suc k) pre))"
      unfolding pre_def by blast
    have all: "\<forall>i. k < i \<and> i \<le> Suc j \<longrightarrow>
             t + total_count encode model (drop i (pre @ [m])) \<le> limit"
    proof (intro allI impI)
      fix i assume i: "k < i \<and> i \<le> Suc j"
      show "t + total_count encode model (drop i (pre @ [m])) \<le> limit"
      proof (cases "i \<le> j")
        case True
        with i acc have "t + msg_count encode model m + total_count encode model (drop i pre) \<le> limit"
          by blast
        moreover from True have "drop i (pre @ [m]) = drop i pre @ [m]" by (simp add: len)
        ultimately show ?thesis by (simp only: total_count_append total_count_single)
      next
        case False
        with i have "i = Suc j" by simp
        with False \<open>\<not> limit < msg_count encode model m + t\<close> show ?thesis
          by (simp add: len total_count_single)
      qed
    qed
    from k have seg: "drop (Suc k) (pre @ [m]) = drop (Suc k) pre @ [m]"
      by (simp add: len)
    have r: "reverse_scan encode messages limit model (Suc j) (t, kept) =
        (t + total_count encode model (drop (Suc k) (pre @ [m])),
         drop (Suc k) (pre @ [m]) @ kept)"
      unfolding step res seg by (simp add: total_count_append total_count_single)
    have b: "0 < k \<longrightarrow>
             limit < msg_count encode model (messages ! k)
                       + (t + total_count encode model (drop (Suc k) (pre @ [m])))"
      using brk unfolding seg total_count_append total_count_single by (simp add: ac_simps)
    from k have "k \<le> Suc j" by simp
    with r all b show ?thesis unfolding tk by blast
  qed
qed

lemma scan_from_end:
  "\<exists>k\<le>length rest.
      reverse_scan encode (m0 # rest) limit model (length rest) (t0, []) =
        (t0 + total_count encode model (drop k rest), drop k rest)
    \<and> (\<forall>i. k \<le> i \<and> i < length rest \<longrightarrow>
           t0 + total_count encode model (drop i rest) \<le> limit)
    \<and> (0 < k \<longrightarrow>
           limit < msg_count encode model (rest ! (k - 1))
                     + (t0 + total_count encode model (drop k rest)))"
proof -
  have "length rest < length (m0 # rest)" by simp
  from reverse_scan_segment [OF this, of encode limit model t0 "[]"]
  obtain k where k: "k \<le> length rest"
    and res: "reverse_scan encode (m0 # rest) limit model (length rest) (t0, []) =
        (t0 + total_count encode model (drop k rest), drop k rest)"
    and acc: "\<forall>i. k < i \<and> i \<le> length rest \<longrightarrow>
           t0 + total_count encode model (drop i (m0 # rest)) \<le> limit"
    and brk: "0 < k \<longrightarrow>
           limit < msg_count encode model ((m0 # rest) ! k)
                     + (t0 + total_count encode model (drop k rest))"
    by auto
  have "\<forall>i. k \<le> i \<and> i < length rest \<longrightarrow>
           t0 + total_count encode model (drop i rest) \<le> limit"
  proof (intro allI impI)
    fix i assume "k \<le> i \<and> i < length rest"
    then have "k < Suc i \<and> Suc i \<le> length rest" by simp
    with acc have "t0 + total_count encode model (drop (Suc i) (m0 # rest)) \<le> limit"
      by blast
    then show "t0 + total_count encode model (drop i rest) \<le> limit" by simp
  qed
  moreover have "0 < k \<longrightarrow>
           limit < msg_count encode model (rest ! (k - 1))
                     + (t0 + total_count encode model (drop k rest))"
    using brk by (cases k) simp_all
  ultimately show ?thesis using k res by blast
qed

lemma selector_Cons:
  fixes encode model limit_arg m0 rest
  defines "limit \<equiv> effective_limit limit_arg"
  defines "t0 \<equiv> (if role m0 = System \<and> msg_count encode model m0 < limit
                  then msg_count encode model m0 else 0)"
  shows "\<exists>k\<le>length rest.
      (\<forall>i. k \<le> i \<and> i < length rest \<longrightarrow>
           t0 + total_count encode model (drop i rest) \<le> limit)
    \<and> (0 < k \<longrightarrow>
           limit < msg_count encode model (rest ! (k - 1))
                     + (t0 + total_count encode model (drop k rest)))
    \<and> limitMessageTokens encode (m0 # rest) limit_arg model =
        Inr (to_half_width_all
          (if role m0 = System
           then (if msg_count encode model m0 < limit
                 then splice_minus3 (drop k rest) m0 else drop k rest)
           else (if msg_count encode model m0 + total_count encode model (drop k rest) < limit
                 then m0 # drop k rest else drop k rest)))"
proof -
  from scan_from_end [of rest encode m0 limit model t0]
  obtain k where k: "k \<le> length rest"
    and res: "reverse_scan encode (m0 # rest) limit model (length rest) (t0, []) =
        (t0 + total_count encode model (drop k rest), drop k rest)"
    and acc: "\<forall>i. k \<le> i \<and> i < length rest \<longrightarrow>
           t0 + total_count encode model (drop i rest) \<le> limit"
    and brk: "0 < k \<longrightarrow>
           limit < msg_count encode model (rest ! (k - 1))
                     + (t0 + total_count encode model (drop k rest))"
    by blast
  have "limitMessageTokens encode (m0 # rest) limit_arg model =
        Inr (to_half_width_all
          (if role m0 = System
           then (if msg_count encode model m0 < limit
                 then splice_minus3 (drop k rest) m0 else drop k rest)
           else (if msg_count encode model m0 + total_count encode model (drop k rest) < limit
                 then m0 # drop k rest else drop k rest)))"
  proof -
    consider (retained) "role m0 = System" "msg_count encode model m0 < limit"
      | (dropped) "role m0 = System" "\<not> msg_count encode model m0 < limit"
      | (other) "role m0 \<noteq> System"
      by blast
    then show ?thesis
    proof cases
      case retained
      with res show ?thesis
        by (simp add: limitMessageTokens_def limit_def [symmetric] t0_def
            msg_count_def [symmetric])
    next
      case dropped
      with res show ?thesis
        by (simp add: limitMessageTokens_def limit_def [symmetric] t0_def
            msg_count_def [symmetric])
    next
      case other
      with res show ?thesis
        by (simp add: limitMessageTokens_def limit_def [symmetric] t0_def
            msg_count_def [symmetric])
    qed
  qed
  with k acc brk show ?thesis by blast
qed

lemma to_half_width_all_Nil: "to_half_width_all [] = []"
  by (simp add: to_half_width_all_def)

lemma to_half_width_all_Cons:
  "to_half_width_all (m # ms) = m\<lparr>content := toHalfWidth (content m)\<rparr> # to_half_width_all ms"
  by (simp add: to_half_width_all_def)

lemma serialized_normalized:
  "serialized (to_half_width_all ms) model = serialized ms model"
  by (simp add: serialized_def to_half_width_all_def comp_def toHalfWidth_twice)

lemma countTokens_normalized:
  "countTokens encode (to_half_width_all ms) model = countTokens encode ms model"
  by (simp add: countTokens_def getChatGPTEncoding_def serialized_normalized)
     (simp add: to_half_width_all_def)

lemma msg_count_normalized:
  "msg_count encode model (m\<lparr>content := toHalfWidth (content m)\<rparr>) = msg_count encode model m"
  using countTokens_normalized [of encode "[m]" model]
  by (simp add: msg_count_def to_half_width_all_def)

lemma total_count_normalized:
  "total_count encode model (to_half_width_all ms) = total_count encode model ms"
  by (simp add: total_count_def to_half_width_all_def comp_def msg_count_normalized)

lemma total_count_Cons:
  "total_count encode model (m # ms) = msg_count encode model m + total_count encode model ms"
  by (simp add: total_count_def)

lemma total_count_splice:
  "total_count encode model (splice_minus3 xs x) = msg_count encode model x + total_count encode model xs"
proof -
  define n where "n = nat (max (int (length xs) - 3) 0)"
  have "total_count encode model (take n xs @ drop n xs) = total_count encode model xs"
    by simp
  then show ?thesis
    unfolding splice_minus3_def Let_def n_def [symmetric] total_count_append total_count_Cons
    by (simp add: total_count_def)
qed

lemma total_count_nonneg: "0 \<le> total_count encode model ms"
  by (induction ms) (simp_all add: total_count_def msg_count_def)

lemma selection_within_limit:
  assumes pos: "0 < effective_limit limit_arg"
  shows "\<exists>sel. limitMessageTokens encode (m0 # rest) limit_arg model = Inr (to_half_width_all sel)
            \<and> total_count encode model sel \<le> effective_limit limit_arg"
proof -
  define limit where "limit = effective_limit limit_arg"
  define t0 where "t0 = (if role m0 = System \<and> msg_count encode model m0 < limit
                  then msg_count encode model m0 else 0)"
  from selector_Cons [where encode = encode and model = model and limit_arg = limit_arg
      and ?m0.0 = m0 and rest = rest]
  obtain k where k: "k \<le> length rest"
    and acc: "\<forall>i. k \<le> i \<and> i < length rest \<longrightarrow>
           t0 + total_count encode model (drop i rest) \<le> limit"
    and out: "limitMessageTokens encode (m0 # rest) limit_arg model =
        Inr (to_half_width_all
          (if role m0 = System
           then (if msg_count encode model m0 < limit
                 then splice_minus3 (drop k rest) m0 else drop k rest)
           else (if msg_count encode model m0 + total_count encode model (drop k rest) < limit
                 then m0 # drop k rest else drop k rest)))"
    unfolding limit_def t0_def by blast
  have t0_le: "t0 \<le> limit" using pos by (simp add: t0_def limit_def)
  have tot: "t0 + total_count encode model (drop k rest) \<le> limit"
  proof (cases "k < length rest")
    case True
    with acc show ?thesis by blast
  next
    case False
    with k have "drop k rest = []" by simp
    with t0_le show ?thesis by (simp add: total_count_def)
  qed
  define sel where "sel = (if role m0 = System
           then (if msg_count encode model m0 < limit
                 then splice_minus3 (drop k rest) m0 else drop k rest)
           else (if msg_count encode model m0 + total_count encode model (drop k rest) < limit
                 then m0 # drop k rest else drop k rest))"
  have "total_count encode model sel \<le> limit"
    using tot by (auto simp add: sel_def t0_def total_count_splice total_count_Cons split: if_splits)
  with out show ?thesis unfolding sel_def limit_def by blast
qed

lemma select_all_four:
  assumes sys: "msg_count encode model s < limit"
    and fit: "total_count encode model [s, u1, a1, u2] \<le> limit"
    and s: "role s = System"
  shows "limitMessageTokens encode [s, u1, a1, u2] (Some limit) model
           = Inr (to_half_width_all [s, u1, a1, u2])"
proof -
  have nn: "\<And>m. 0 \<le> msg_count encode model m" by (simp add: msg_count_def)
  from fit have f: "msg_count encode model s + msg_count encode model u1
      + msg_count encode model a1 + msg_count encode model u2 \<le> limit"
    by (simp add: total_count_def)
  have scan: "reverse_scan encode [s, u1, a1, u2] limit model (Suc (Suc (Suc 0)))
                (msg_count encode model s, [])
        = (msg_count encode model s + msg_count encode model u2 + msg_count encode model a1
             + msg_count encode model u1, [u1, a1, u2])"
    using f nn [of u1] nn [of a1] nn [of u2]
    by (simp add: msg_count_def [symmetric] Let_def)
  show ?thesis
    using sys s scan
    by (simp add: limitMessageTokens_def effective_limit_def msg_count_def [symmetric]
        splice_minus3_def)
qed

section \<open>The stand-in encoder\<close>

lemma length_js: "length (js s) = length s"
  by (simp add: js_def)

lemma count_char_gpt3:
  "countTokens char_encoder [m] (js ''gpt-3.5-turbo'')
     = 46 + length (role_str (role m)) + length (content m)"
  by (simp add: countTokens_def getChatGPTEncoding_def char_encoder_def serialized_gpt3
      toHalfWidth_same_length length_js)

lemma msg_count_char_gpt3:
  "msg_count char_encoder (js ''gpt-3.5-turbo'') m
     = 46 + int (length (role_str (role m))) + int (length (content m))"
  by (simp add: msg_count_def count_char_gpt3)

lemma concat_length_subadditive:
  "int (length (concat (map f ms))) + int t
     \<le> sum_list (map (\<lambda>m. int (length (f m) + t)) ms) \<or> ms = []"
  by (induction ms) auto

lemma char_encoder_subadditive: "subadditive char_encoder model"
proof -
  from serialized_concat [of model]
  obtain f tr where ser: "\<And>ms. ms \<noteq> [] \<Longrightarrow> serialized ms model = concat (map f ms) @ tr"
    by blast
  have single: "\<And>m. countTokens char_encoder [m] model = length (f m) + length tr"
    by (simp add: countTokens_def getChatGPTEncoding_def char_encoder_def ser)
  have mc: "msg_count char_encoder model = (\<lambda>m. int (length (f m) + length tr))"
    by (rule ext) (simp add: msg_count_def single)
  have "int (countTokens char_encoder ms model) \<le> total_count char_encoder model ms" for ms
  proof (cases "ms = []")
    case True
    then show ?thesis by (simp add: countTokens_def total_count_def)
  next
    case False
    then have "int (countTokens char_encoder ms model)
        = int (length (concat (map f ms))) + int (length tr)"
      by (simp add: countTokens_def getChatGPTEncoding_def char_encoder_def ser)
    also from False concat_length_subadditive [of f ms "length tr"]
    have "\<dots> \<le> sum_list (map (\<lambda>m. int (length (f m) + length tr)) ms)" by simp
    also have "\<dots> = total_count char_encoder model ms"
      unfolding total_count_def mc ..
    finally show ?thesis .
  qed
  then show ?thesis by (simp add: subadditive_def)
qed

section \<open>Concrete evaluations with the stand-in encoder\<close>

lemma sample_contents:
  "toHalfWidth (js ''S'') = js ''S''" "toHalfWidth (js ''U1'') = js ''U1''"
  "toHalfWidth (js ''A1'') = js ''A1''" "toHalfWidth (js ''U2'') = js ''U2''"
  "toHalfWidth (js ''A2'') = js ''A2''"
  by (simp_all add: js_def toHalfWidth_def fullWidthSymbolsRegex_def)

lemma sample_selection:
  "limitMessageTokens char_encoder
       [\<lparr>role = User, content = js ''a''\<rparr>, \<lparr>role = User, content = js ''b''\<rparr>,
        \<lparr>role = User, content = js ''c''\<rparr>]
       (Some 102) (js ''gpt-3.5-turbo'')
     = Inr [\<lparr>role = User, content = js ''b''\<rparr>, \<lparr>role = User, content = js ''c''\<rparr>]"
  apply (simp add: limitMessageTokens_def effective_limit_def count_char_gpt3 length_js
      to_half_width_all_def numeral_eq_Suc)
  apply (simp add: js_def toHalfWidth_def fullWidthSymbolsRegex_def)
  done

lemma sample_five:
  "limitMessageTokens char_encoder
     [\<lparr>role = System, content = js ''S''\<rparr>, \<lparr>role = User, content = js ''U1''\<rparr>,
      \<lparr>role = Assistant, content = js ''A1''\<rparr>, \<lparr>role = User, content = js ''U2''\<rparr>,
      \<lparr>role = Assistant, content = js ''A2''\<rparr>]
     (Some 4096) (js ''gpt-3.5-turbo'')
   = Inr [\<lparr>role = User, content = js ''U1''\<rparr>, \<lparr>role = System, content = js ''S''\<rparr>,
          \<lparr>role = Assistant, content = js ''A1''\<rparr>, \<lparr>role = User, content = js ''U2''\<rparr>,
          \<lparr>role = Assistant, content = js ''A2''\<rparr>]"
  by (simp add: limitMessageTokens_def effective_limit_def count_char_gpt3 length_js
      splice_minus3_def to_half_width_all_def numeral_eq_Suc sample_contents)

section \<open>The claims about the selector, the serializer and the accumulator\<close>

text \<open>
  Claim C1. For every message history and positive limit, the token count of the
  selector's output does not exceed the limit. The tokenizer is external; what the bound
  needs from it is \<open>subadditive\<close>: a joint prompt never counts more than its messages
  counted one by one. The selector returns a result for every non-empty history (on the
  empty history the call raises, which is claim C3), and the count of every result is at
  most the limit, with no exception for a lone system message.
\<close>

theorem selected_prompt_fits_limit:
  assumes sub: "subadditive encode model" and pos: "0 < effective_limit limit_arg"
  shows "case limitMessageTokens encode messages limit_arg model of
           Inl e \<Rightarrow> messages = []
         | Inr out \<Rightarrow> int (countTokens encode out model) \<le> effective_limit limit_arg"
proof (cases messages)
  case Nil
  then show ?thesis by (simp add: limitMessageTokens_def)
next
  case (Cons m0 rest)
  from selection_within_limit [OF pos, where encode = encode and ?m0.0 = m0 and rest = rest
      and model = model]
  obtain sel where out: "limitMessageTokens encode (m0 # rest) limit_arg model = Inr (to_half_width_all sel)"
    and le: "total_count encode model sel \<le> effective_limit limit_arg" by blast
  from sub have "int (countTokens encode sel model) \<le> total_count encode model sel"
    by (simp add: subadditive_def)
  with le out Cons show ?thesis by (simp add: countTokens_normalized)
qed

text \<open>
  The bound at a concrete input: three user messages of 51 tokens each under a limit of
  102. The last two are selected and their joint prompt has 80 tokens.
\<close>

theorem selected_prompt_fits_limit_witness:
  "subadditive char_encoder (js ''gpt-3.5-turbo'')
   \<and> 0 < effective_limit (Some 102)
   \<and> limitMessageTokens char_encoder
       [\<lparr>role = User, content = js ''a''\<rparr>, \<lparr>role = User, content = js ''b''\<rparr>,
        \<lparr>role = User, content = js ''c''\<rparr>]
       (Some 102) (js ''gpt-3.5-turbo'')
     = Inr [\<lparr>role = User, content = js ''b''\<rparr>, \<lparr>role = User, content = js ''c''\<rparr>]
   \<and> int (countTokens char_encoder
       [\<lparr>role = User, content = js ''b''\<rparr>, \<lparr>role = User, content = js ''c''\<rparr>]
       (js ''gpt-3.5-turbo'')) \<le> 102"
proof -
  have pos: "0 < effective_limit (Some 102)" by (simp add: effective_limit_def)
  from selected_prompt_fits_limit [where encode = char_encoder
      and model = "js ''gpt-3.5-turbo''" and limit_arg = "Some 102"
      and messages = "[\<lparr>role = User, content = js ''a''\<rparr>,
        \<lparr>role = User, content = js ''b''\<rparr>, \<lparr>role = User, content = js ''c''\<rparr>]",
      OF char_encoder_subadditive pos]
  show ?thesis
    using pos char_encoder_subadditive [of "js ''gpt-3.5-turbo''"]
    by (simp add: sample_selection effective_limit_def)
qed

text \<open>
  Claim C2, as amended. For the history system \<open>S\<close>, user \<open>U1\<close>, assistant \<open>A1\<close>,
  user \<open>U2\<close> and any limit under which all four messages are accepted, the selector
  returns the four messages in their original order, the system message at index 0:
  three messages are accepted by the scan, so the start index \<open>-3\<close> of the splice
  resolves to 0.
\<close>

theorem four_message_history:
  assumes "msg_count encode model \<lparr>role = System, content = js ''S''\<rparr> < limit"
    and "total_count encode model
           [\<lparr>role = System, content = js ''S''\<rparr>, \<lparr>role = User, content = js ''U1''\<rparr>,
            \<lparr>role = Assistant, content = js ''A1''\<rparr>, \<lparr>role = User, content = js ''U2''\<rparr>]
         \<le> limit"
  shows "limitMessageTokens encode
           [\<lparr>role = System, content = js ''S''\<rparr>, \<lparr>role = User, content = js ''U1''\<rparr>,
            \<lparr>role = Assistant, content = js ''A1''\<rparr>, \<lparr>role = User, content = js ''U2''\<rparr>]
           (Some limit) model
         = Inr [\<lparr>role = System, content = js ''S''\<rparr>, \<lparr>role = User, content = js ''U1''\<rparr>,
                \<lparr>role = Assistant, content = js ''A1''\<rparr>, \<lparr>role = User, content = js ''U2''\<rparr>]"
  using select_all_four [OF assms]
  by (simp add: to_half_width_all_def sample_contents)

text \<open>
  The four-message history under a limit of 4096, with the stand-in encoder.
\<close>

theorem four_message_history_witness:
  "msg_count char_encoder (js ''gpt-3.5-turbo'') \<lparr>role = System, content = js ''S''\<rparr> < 4096
   \<and> total_count char_encoder (js ''gpt-3.5-turbo'')
           [\<lparr>role = System, content = js ''S''\<rparr>, \<lparr>role = User, content = js ''U1''\<rparr>,
            \<lparr>role = Assistant, content = js ''A1''\<rparr>, \<lparr>role = User, content = js ''U2''\<rparr>]
         \<le> 4096
   \<and> limitMessageTokens char_encoder
           [\<lparr>role = System, content = js ''S''\<rparr>, \<lparr>role = User, content = js ''U1''\<rparr>,
            \<lparr>role = Assistant, content = js ''A1''\<rparr>, \<lparr>role = User, content = js ''U2''\<rparr>]
           (Some 4096) (js ''gpt-3.5-turbo'')
         = Inr [\<lparr>role = System, content = js ''S''\<rparr>, \<lparr>role = User, content = js ''U1''\<rparr>,
                \<lparr>role = Assistant, content = js ''A1''\<rparr>, \<lparr>role = User, content = js ''U2''\<rparr>]"
proof -
  have a: "msg_count char_encoder (js ''gpt-3.5-turbo'') \<lparr>role = System, content = js ''S''\<rparr> < 4096"
    by (simp add: msg_count_char_gpt3 length_js)
  have b: "total_count char_encoder (js ''gpt-3.5-turbo'')
           [\<lparr>role = System, content = js ''S''\<rparr>, \<lparr>role = User, content = js ''U1''\<rparr>,
            \<lparr>role = Assistant, content = js ''A1''\<rparr>, \<lparr>role = User, content = js ''U2''\<rparr>]
         \<le> 4096"
    by (simp add: total_count_def msg_count_char_gpt3 length_js)
  from four_message_history [OF a b] a b show ?thesis by simp
qed

text \<open>
  Claim C2 as stated says that the result is \<open>U1, S, A1, U2\<close>, the system message at
  index 1. It is not.
\<close>

theorem four_message_history_counterexample:
  "limitMessageTokens char_encoder
     [\<lparr>role = System, content = js ''S''\<rparr>, \<lparr>role = User, content = js ''U1''\<rparr>,
      \<lparr>role = Assistant, content = js ''A1''\<rparr>, \<lparr>role = User, content = js ''U2''\<rparr>]
     (Some 4096) (js ''gpt-3.5-turbo'')
   \<noteq> Inr [\<lparr>role = User, content = js ''U1''\<rparr>, \<lparr>role = System, content = js ''S''\<rparr>,
           \<lparr>role = Assistant, content = js ''A1''\<rparr>, \<lparr>role = User, content = js ''U2''\<rparr>]"
  by (simp add: limitMessageTokens_def effective_limit_def count_char_gpt3 length_js
      splice_minus3_def to_half_width_all_def numeral_eq_Suc)

text \<open>
  Claim C3. The claim is that the selector returns the empty list on the empty history,
  without failing and without counting a first message that does not exist. On the empty
  history \<open>messages[0]\<close> is \<open>undefined\<close>, the branch for a first message that is not a
  system message is taken, and \<open>countTokens([undefined], model)\<close> raises a TypeError.
\<close>

theorem empty_history_raises:
  "limitMessageTokens encode [] limit_arg model = Inl TypeError"
  by (simp add: limitMessageTokens_def)

text \<open>
  Claim C4, as amended. For every non-empty history, the selector's output consists of
  normalized copies of a contiguous suffix of the history without its first message, in
  the original order, with the first message optionally added: a first message of role
  system is inserted three slots before the end of that suffix (at index 0 when the
  suffix has at most three messages), a first message of another role is put at the
  head.
\<close>

theorem selection_shape:
  "\<exists>k\<le>length rest.
      limitMessageTokens encode (m0 # rest) limit_arg model
        = Inr (to_half_width_all (drop k rest))
    \<or> (role m0 = System \<and>
         limitMessageTokens encode (m0 # rest) limit_arg model
           = Inr (to_half_width_all (splice_minus3 (drop k rest) m0)))
    \<or> (role m0 \<noteq> System \<and>
         limitMessageTokens encode (m0 # rest) limit_arg model
           = Inr (to_half_width_all (m0 # drop k rest)))"
proof -
  from selector_Cons [where encode = encode and model = model and limit_arg = limit_arg
      and ?m0.0 = m0 and rest = rest]
  obtain k where k: "k \<le> length rest"
    and out: "limitMessageTokens encode (m0 # rest) limit_arg model =
        Inr (to_half_width_all
          (if role m0 = System
           then (if msg_count encode model m0 < effective_limit limit_arg
                 then splice_minus3 (drop k rest) m0 else drop k rest)
           else (if msg_count encode model m0 + total_count encode model (drop k rest)
                      < effective_limit limit_arg
                 then m0 # drop k rest else drop k rest)))"
    by blast
  from out have "limitMessageTokens encode (m0 # rest) limit_arg model
        = Inr (to_half_width_all (drop k rest))
    \<or> (role m0 = System \<and>
         limitMessageTokens encode (m0 # rest) limit_arg model
           = Inr (to_half_width_all (splice_minus3 (drop k rest) m0)))
    \<or> (role m0 \<noteq> System \<and>
         limitMessageTokens encode (m0 # rest) limit_arg model
           = Inr (to_half_width_all (m0 # drop k rest)))"
    by (simp split: if_splits)
  with k show ?thesis by blast
qed

text \<open>
  The shape at a concrete input: with four messages accepted after a system message,
  the system message is spliced in at index 1.
\<close>

theorem selection_shape_witness:
  "role \<lparr>role = System, content = js ''S''\<rparr> = System
   \<and> limitMessageTokens char_encoder
     [\<lparr>role = System, content = js ''S''\<rparr>, \<lparr>role = User, content = js ''U1''\<rparr>,
      \<lparr>role = Assistant, content = js ''A1''\<rparr>, \<lparr>role = User, content = js ''U2''\<rparr>,
      \<lparr>role = Assistant, content = js ''A2''\<rparr>]
     (Some 4096) (js ''gpt-3.5-turbo'')
   = Inr (to_half_width_all (splice_minus3
       (drop 0 [\<lparr>role = User, content = js ''U1''\<rparr>,
                \<lparr>role = Assistant, content = js ''A1''\<rparr>, \<lparr>role = User, content = js ''U2''\<rparr>,
                \<lparr>role = Assistant, content = js ''A2''\<rparr>])
       \<lparr>role = System, content = js ''S''\<rparr>))"
  using selection_shape [where encode = char_encoder and model = "js ''gpt-3.5-turbo''"
      and limit_arg = "Some 4096" and ?m0.0 = "\<lparr>role = System, content = js ''S''\<rparr>"
      and rest = "[\<lparr>role = User, content = js ''U1''\<rparr>,
                \<lparr>role = Assistant, content = js ''A1''\<rparr>, \<lparr>role = User, content = js ''U2''\<rparr>,
                \<lparr>role = Assistant, content = js ''A2''\<rparr>]"]
  by (simp add: sample_five splice_minus3_def to_half_width_all_def sample_contents)

text \<open>
  Claim C4 as stated says that the output is a contiguous suffix of the input,
  optionally prefixed by a first message of role system. For a system message followed
  by four accepted messages the output has the system message at index 1, which is
  neither.
\<close>

theorem selection_shape_counterexample:
  "limitMessageTokens char_encoder
     [\<lparr>role = System, content = js ''S''\<rparr>, \<lparr>role = User, content = js ''U1''\<rparr>,
      \<lparr>role = Assistant, content = js ''A1''\<rparr>, \<lparr>role = User, content = js ''U2''\<rparr>,
      \<lparr>role = Assistant, content = js ''A2''\<rparr>]
     (Some 4096) (js ''gpt-3.5-turbo'')
   = Inr [\<lparr>role = User, content = js ''U1''\<rparr>, \<lparr>role = System, content = js ''S''\<rparr>,
          \<lparr>role = Assistant, content = js ''A1''\<rparr>, \<lparr>role = User, content = js ''U2''\<rparr>,
          \<lparr>role = Assistant, content = js ''A2''\<rparr>]
   \<and> \<not> spec_output_shape
     [\<lparr>role = System, content = js ''S''\<rparr>, \<lparr>role = User, content = js ''U1''\<rparr>,
      \<lparr>role = Assistant, content = js ''A1''\<rparr>, \<lparr>role = User, content = js ''U2''\<rparr>,
      \<lparr>role = Assistant, content = js ''A2''\<rparr>]
     [\<lparr>role = User, content = js ''U1''\<rparr>, \<lparr>role = System, content = js ''S''\<rparr>,
      \<lparr>role = Assistant, content = js ''A1''\<rparr>, \<lparr>role = User, content = js ''U2''\<rparr>,
      \<lparr>role = Assistant, content = js ''A2''\<rparr>]"
  by (simp add: sample_five spec_output_shape_def suffixes.simps)

text \<open>
  Claim C6, as amended. Under the model \<open>gpt-3.5-turbo\<close> the message separator and the
  separator between role and content are both a newline, and every message is wrapped as
  \<open><|im_start|>role\<close>, newline, content, \<open><|im_end|>\<close>; the prompt ends with the open
  assistant turn \<open><|im_start|>assistant\<close> and a newline. (For an empty message list the
  prompt is a newline followed by the open assistant turn.)
\<close>

theorem dialect_A_serialization:
  "serialized messages (js ''gpt-3.5-turbo'') =
     (if messages = [] then [0x0A]
      else concat (map (\<lambda>m. js ''<|im_start|>'' @ role_str (role m) @ [0x0A]
                              @ toHalfWidth (content m) @ js ''<|im_end|>'' @ [0x0A]) messages))
     @ js ''<|im_start|>assistant'' @ [0x0A]"
proof (cases "messages = []")
  case True
  then show ?thesis by (simp add: serialized_def)
next
  case False
  then have "map (\<lambda>m. js ''<|im_start|>'' @ role_str (role m) @ [0x0A]
                      @ toHalfWidth (content m) @ js ''<|im_end|>'') messages \<noteq> []"
    by simp
  from join_map_concat [OF this, of "[0x0A]"] False show ?thesis
    by (simp add: serialized_def Let_def comp_def)
qed

text \<open>
  Claim C6 as stated says that the messages of this dialect carry no start and end
  markers. The prompt of a single user message \<open>hi\<close> contains both markers.
\<close>

theorem dialect_A_counterexample:
  "sublist (js ''<|im_start|>'')
     (serialized [\<lparr>role = User, content = js ''hi''\<rparr>] (js ''gpt-3.5-turbo''))
   \<and> sublist (js ''<|im_end|>'')
     (serialized [\<lparr>role = User, content = js ''hi''\<rparr>] (js ''gpt-3.5-turbo''))"
proof -
  have "serialized [\<lparr>role = User, content = js ''hi''\<rparr>] (js ''gpt-3.5-turbo'')
      = [] @ js ''<|im_start|>'' @ (js ''user'' @ [0x0A] @ js ''hi<|im_end|>'' @ [0x0A]
          @ js ''<|im_start|>assistant'' @ [0x0A])"
    by (simp add: serialized_def js_def toHalfWidth_def fullWidthSymbolsRegex_def)
  moreover have "serialized [\<lparr>role = User, content = js ''hi''\<rparr>] (js ''gpt-3.5-turbo'')
      = (js ''<|im_start|>user'' @ [0x0A] @ js ''hi'') @ js ''<|im_end|>''
          @ ([0x0A] @ js ''<|im_start|>assistant'' @ [0x0A])"
    by (simp add: serialized_def js_def toHalfWidth_def fullWidthSymbolsRegex_def)
  ultimately show ?thesis
    by (metis sublist_appendI)
qed

text \<open>
  Claim C7. The budget comparisons are asymmetric. For a history \<open>m0 # rest\<close>, the
  scan accepts the messages of \<open>rest\<close> from the end down to index \<open>k\<close>: each accepted
  message kept the running total (the reserved count of a retained system message
  included) at or below the limit, so a total of exactly the limit is accepted, and the
  scan stopped at the first message from the end whose count would take the total above
  the limit. The leading system message is retained only if its count is strictly below
  the limit, and a first message of another role is added only if its count plus the
  total is strictly below the limit.
\<close>

theorem budget_comparisons:
  fixes encode model limit_arg m0 rest
  defines "limit \<equiv> effective_limit limit_arg"
  defines "reserved \<equiv> (if role m0 = System \<and> msg_count encode model m0 < limit
                         then msg_count encode model m0 else 0)"
  shows "\<exists>k\<le>length rest.
      (\<forall>i. k \<le> i \<and> i < length rest \<longrightarrow>
           reserved + total_count encode model (drop i rest) \<le> limit)
    \<and> (0 < k \<longrightarrow>
           limit < msg_count encode model (rest ! (k - 1))
                     + (reserved + total_count encode model (drop k rest)))
    \<and> limitMessageTokens encode (m0 # rest) limit_arg model =
        Inr (to_half_width_all
          (if role m0 = System
           then (if msg_count encode model m0 < limit
                 then splice_minus3 (drop k rest) m0 else drop k rest)
           else (if msg_count encode model m0 + total_count encode model (drop k rest) < limit
                 then m0 # drop k rest else drop k rest)))"
  unfolding limit_def reserved_def by (rule selector_Cons)

text \<open>
  Both boundaries at concrete inputs. A system message of 53 tokens is not retained
  under a limit of 53, while the scan accepts a user message of 53 tokens under the same
  limit. A first user message that would bring the total to exactly 102 is not added
  under a limit of 102.
\<close>

theorem budget_comparisons_witness:
  "msg_count char_encoder (js ''gpt-3.5-turbo'') \<lparr>role = System, content = js ''x''\<rparr> = 53
   \<and> msg_count char_encoder (js ''gpt-3.5-turbo'') \<lparr>role = User, content = js ''abc''\<rparr> = 53
   \<and> limitMessageTokens char_encoder
       [\<lparr>role = System, content = js ''x''\<rparr>, \<lparr>role = User, content = js ''abc''\<rparr>]
       (Some 53) (js ''gpt-3.5-turbo'')
     = Inr [\<lparr>role = User, content = js ''abc''\<rparr>]
   \<and> msg_count char_encoder (js ''gpt-3.5-turbo'') \<lparr>role = User, content = js ''a''\<rparr>
       + msg_count char_encoder (js ''gpt-3.5-turbo'') \<lparr>role = User, content = js ''b''\<rparr> = 102
   \<and> limitMessageTokens char_encoder
       [\<lparr>role = User, content = js ''a''\<rparr>, \<lparr>role = User, content = js ''b''\<rparr>]
       (Some 102) (js ''gpt-3.5-turbo'')
     = Inr [\<lparr>role = User, content = js ''b''\<rparr>]"
proof -
  let ?gpt = "js ''gpt-3.5-turbo''"
  let ?s = "\<lparr>role = System, content = js ''x''\<rparr>"
  let ?u = "\<lparr>role = User, content = js ''abc''\<rparr>"
  let ?a = "\<lparr>role = User, content = js ''a''\<rparr>"
  let ?b = "\<lparr>role = User, content = js ''b''\<rparr>"
  have same: "to_half_width_all [?u] = [?u]" "to_half_width_all [?b] = [?b]"
    by (simp_all add: to_half_width_all_def js_def toHalfWidth_def fullWidthSymbolsRegex_def)
  from budget_comparisons [where encode = char_encoder and model = ?gpt
      and limit_arg = "Some 53" and ?m0.0 = ?s and rest = "[?u]"]
  obtain k where k: "k \<le> length [?u]"
    and brk: "0 < k \<longrightarrow>
           effective_limit (Some 53) < msg_count char_encoder ?gpt ([?u] ! (k - 1))
             + ((if role ?s = System \<and> msg_count char_encoder ?gpt ?s < effective_limit (Some 53)
                 then msg_count char_encoder ?gpt ?s else 0)
                + total_count char_encoder ?gpt (drop k [?u]))"
    and out: "limitMessageTokens char_encoder (?s # [?u]) (Some 53) ?gpt =
        Inr (to_half_width_all
          (if role ?s = System
           then (if msg_count char_encoder ?gpt ?s < effective_limit (Some 53)
                 then splice_minus3 (drop k [?u]) ?s else drop k [?u])
           else (if msg_count char_encoder ?gpt ?s + total_count char_encoder ?gpt (drop k [?u])
                      < effective_limit (Some 53)
                 then ?s # drop k [?u] else drop k [?u])))"
    by blast
  from k have "k = 0 \<or> k = 1" by auto
  with brk have "k = 0"
    by (auto simp add: msg_count_char_gpt3 total_count_def effective_limit_def length_js)
  with out have first: "limitMessageTokens char_encoder [?s, ?u] (Some 53) ?gpt = Inr [?u]"
    by (simp add: msg_count_char_gpt3 total_count_def effective_limit_def length_js same)
  from budget_comparisons [where encode = char_encoder and model = ?gpt
      and limit_arg = "Some 102" and ?m0.0 = ?a and rest = "[?b]"]
  obtain j where j: "j \<le> length [?b]"
    and brk2: "0 < j \<longrightarrow>
           effective_limit (Some 102) < msg_count char_encoder ?gpt ([?b] ! (j - 1))
             + ((if role ?a = System \<and> msg_count char_encoder ?gpt ?a < effective_limit (Some 102)
                 then msg_count char_encoder ?gpt ?a else 0)
                + total_count char_encoder ?gpt (drop j [?b]))"
    and out2: "limitMessageTokens char_encoder (?a # [?b]) (Some 102) ?gpt =
        Inr (to_half_width_all
          (if role ?a = System
           then (if msg_count char_encoder ?gpt ?a < effective_limit (Some 102)
                 then splice_minus3 (drop j [?b]) ?a else drop j [?b])
           else (if msg_count char_encoder ?gpt ?a + total_count char_encoder ?gpt (drop j [?b])
                      < effective_limit (Some 102)
                 then ?a # drop j [?b] else drop j [?b])))"
    by blast
  from j have "j = 0 \<or> j = 1" by auto
  with brk2 have "j = 0"
    by (auto simp add: msg_count_char_gpt3 total_count_def effective_limit_def length_js)
  with out2 have second: "limitMessageTokens char_encoder [?a, ?b] (Some 102) ?gpt = Inr [?b]"
    by (simp add: msg_count_char_gpt3 total_count_def effective_limit_def length_js same)
  from first second show ?thesis
    by (simp add: msg_count_char_gpt3 length_js)
qed

section \<open>The usage accumulator\<close>

lemma js_add_exact: "\<bar>x + y\<bar> < 2 ^ 53 \<Longrightarrow> js_add x y = x + y"
  by (simp add: js_add_def round_double_def)

lemma bitlen_sample: "bitlen 9007199254741043 = 54"
  by (simp add: compute_bitlen)

lemma js_add_rounds: "js_add 9007199254740992 51 = 9007199254741044"
  by (simp add: js_add_def round_double_def bitlen_sample Let_def)

lemma update_entry:
  "updateTotalTokenUsed encode model promptMessages completionMessage totals model
     = Some \<lparr>promptTokens =
               Some (js_add (stored_prompt totals model)
                       (int (countTokens encode promptMessages model))),
             completionTokens =
               Some (js_add (stored_completion totals model)
                       (int (countTokens encode [completionMessage] model)))\<rparr>"
  by (simp add: updateTotalTokenUsed_def stored_prompt_def stored_completion_def Let_def
      split: option.splits)

lemma update_frame:
  "other \<noteq> model \<Longrightarrow>
   updateTotalTokenUsed encode model promptMessages completionMessage totals other
     = totals other"
  by (simp add: updateTotalTokenUsed_def Let_def)

lemma stored_after_update:
  "stored_prompt (updateTotalTokenUsed encode model promptMessages completionMessage totals) model
     = js_add (stored_prompt totals model) (int (countTokens encode promptMessages model))"
  "stored_completion (updateTotalTokenUsed encode model promptMessages completionMessage totals) model
     = js_add (stored_completion totals model) (int (countTokens encode [completionMessage] model))"
  by (simp_all add: update_entry stored_prompt_def [of "updateTotalTokenUsed _ _ _ _ _"]
      stored_completion_def [of "updateTotalTokenUsed _ _ _ _ _"])

lemma js_add_twice:
  assumes "\<bar>x\<bar> < 2 ^ 53" and "x + 2 * int n < 2 ^ 53"
  shows "js_add x (int n) = x + int n" and "js_add (js_add x (int n)) (int n) = x + 2 * int n"
proof -
  from assms have a: "\<bar>x + int n\<bar> < 2 ^ 53" by linarith
  then show one: "js_add x (int n) = x + int n" by (rule js_add_exact)
  from assms have "\<bar>x + int n + int n\<bar> < 2 ^ 53" by linarith
  then have "js_add (x + int n) (int n) = x + int n + int n" by (rule js_add_exact)
  with one show "js_add (js_add x (int n)) (int n) = x + 2 * int n" by simp
qed

text \<open>
  Claim C9, as amended. \<open>updateTotalTokenUsed\<close> adds the counts of the prompt and of the
  completion to the totals stored for the model, a missing entry or field read as 0, and
  writes the entry of that model only: the entry of every other model is the one stored
  before. After two identical calls each counter is its value before the calls plus
  twice the new count. The sums are exact as long as the totals stay below \<open>2 ^ 53\<close> in
  magnitude, the range in which every integer is a JavaScript number.
\<close>

theorem usage_accumulates:
  fixes encode model promptMessages completionMessage totals
  defines "p \<equiv> countTokens encode promptMessages model"
  defines "c \<equiv> countTokens encode [completionMessage] model"
  defines "once \<equiv> updateTotalTokenUsed encode model promptMessages completionMessage totals"
  defines "twice \<equiv> updateTotalTokenUsed encode model promptMessages completionMessage once"
  assumes "\<bar>stored_prompt totals model\<bar> < 2 ^ 53"
    and "stored_prompt totals model + 2 * int p < 2 ^ 53"
    and "\<bar>stored_completion totals model\<bar> < 2 ^ 53"
    and "stored_completion totals model + 2 * int c < 2 ^ 53"
  shows "once model = Some \<lparr>promptTokens = Some (stored_prompt totals model + int p),
                            completionTokens = Some (stored_completion totals model + int c)\<rparr>
       \<and> twice model = Some \<lparr>promptTokens = Some (stored_prompt totals model + 2 * int p),
                              completionTokens = Some (stored_completion totals model + 2 * int c)\<rparr>
       \<and> (\<forall>other. other \<noteq> model \<longrightarrow> once other = totals other \<and> twice other = totals other)"
proof -
  have o: "once model = Some \<lparr>promptTokens = Some (stored_prompt totals model + int p),
                            completionTokens = Some (stored_completion totals model + int c)\<rparr>"
    unfolding once_def update_entry
    using js_add_twice(1) [OF assms(5,6) [unfolded p_def]]
      js_add_twice(1) [OF assms(7,8) [unfolded c_def]]
    by (simp add: p_def c_def)
  have t: "twice model = Some \<lparr>promptTokens = Some (stored_prompt totals model + 2 * int p),
                              completionTokens = Some (stored_completion totals model + 2 * int c)\<rparr>"
    unfolding twice_def once_def update_entry stored_after_update
    using js_add_twice(2) [OF assms(5,6) [unfolded p_def]]
      js_add_twice(2) [OF assms(7,8) [unfolded c_def]]
    by (simp add: p_def c_def)
  have f: "\<forall>other. other \<noteq> model \<longrightarrow> once other = totals other \<and> twice other = totals other"
    by (simp add: once_def twice_def update_frame)
  from o t f show ?thesis by blast
qed

text \<open>
  The accumulator at a concrete store with two models: the entry of the other model is
  kept, one call takes the counters from 10 and 0 to 61 and 56, and a second call to 112
  and 112.
\<close>

theorem usage_accumulates_witness:
  "\<bar>stored_prompt
       [js ''gpt-3.5-turbo'' \<mapsto> \<lparr>promptTokens = Some 10, completionTokens = None\<rparr>,
        js ''gpt-4'' \<mapsto> \<lparr>promptTokens = Some 7, completionTokens = Some 8\<rparr>]
       (js ''gpt-3.5-turbo'')\<bar> < 2 ^ 53
   \<and> stored_prompt
       [js ''gpt-3.5-turbo'' \<mapsto> \<lparr>promptTokens = Some 10, completionTokens = None\<rparr>,
        js ''gpt-4'' \<mapsto> \<lparr>promptTokens = Some 7, completionTokens = Some 8\<rparr>]
       (js ''gpt-3.5-turbo'')
       + 2 * int (countTokens char_encoder [\<lparr>role = User, content = js ''a''\<rparr>]
                    (js ''gpt-3.5-turbo'')) < 2 ^ 53
   \<and> \<bar>stored_completion
       [js ''gpt-3.5-turbo'' \<mapsto> \<lparr>promptTokens = Some 10, completionTokens = None\<rparr>,
        js ''gpt-4'' \<mapsto> \<lparr>promptTokens = Some 7, completionTokens = Some 8\<rparr>]
       (js ''gpt-3.5-turbo'')\<bar> < 2 ^ 53
   \<and> stored_completion
       [js ''gpt-3.5-turbo'' \<mapsto> \<lparr>promptTokens = Some 10, completionTokens = None\<rparr>,
        js ''gpt-4'' \<mapsto> \<lparr>promptTokens = Some 7, completionTokens = Some 8\<rparr>]
       (js ''gpt-3.5-turbo'')
       + 2 * int (countTokens char_encoder [\<lparr>role = Assistant, content = js ''b''\<rparr>]
                    (js ''gpt-3.5-turbo'')) < 2 ^ 53
   \<and> js ''gpt-4'' \<noteq> js ''gpt-3.5-turbo''
   \<and> updateTotalTokenUsed char_encoder (js ''gpt-3.5-turbo'')
        [\<lparr>role = User, content = js ''a''\<rparr>] \<lparr>role = Assistant, content = js ''b''\<rparr>
        [js ''gpt-3.5-turbo'' \<mapsto> \<lparr>promptTokens = Some 10, completionTokens = None\<rparr>,
         js ''gpt-4'' \<mapsto> \<lparr>promptTokens = Some 7, completionTokens = Some 8\<rparr>]
        (js ''gpt-4'')
      = Some \<lparr>promptTokens = Some 7, completionTokens = Some 8\<rparr>
   \<and> updateTotalTokenUsed char_encoder (js ''gpt-3.5-turbo'')
        [\<lparr>role = User, content = js ''a''\<rparr>] \<lparr>role = Assistant, content = js ''b''\<rparr>
        [js ''gpt-3.5-turbo'' \<mapsto> \<lparr>promptTokens = Some 10, completionTokens = None\<rparr>,
         js ''gpt-4'' \<mapsto> \<lparr>promptTokens = Some 7, completionTokens = Some 8\<rparr>]
        (js ''gpt-3.5-turbo'')
      = Some \<lparr>promptTokens = Some 61, completionTokens = Some 56\<rparr>
   \<and> updateTotalTokenUsed char_encoder (js ''gpt-3.5-turbo'')
        [\<lparr>role = User, content = js ''a''\<rparr>] \<lparr>role = Assistant, content = js ''b''\<rparr>
        (updateTotalTokenUsed char_encoder (js ''gpt-3.5-turbo'')
          [\<lparr>role = User, content = js ''a''\<rparr>] \<lparr>role = Assistant, content = js ''b''\<rparr>
          [js ''gpt-3.5-turbo'' \<mapsto> \<lparr>promptTokens = Some 10, completionTokens = None\<rparr>,
           js ''gpt-4'' \<mapsto> \<lparr>promptTokens = Some 7, completionTokens = Some 8\<rparr>])
        (js ''gpt-3.5-turbo'')
      = Some \<lparr>promptTokens = Some 112, completionTokens = Some 112\<rparr>"
proof -
  let ?gpt = "js ''gpt-3.5-turbo''"
  let ?t = "[?gpt \<mapsto> \<lparr>promptTokens = Some 10, completionTokens = None\<rparr>,
         js ''gpt-4'' \<mapsto> \<lparr>promptTokens = Some 7, completionTokens = Some 8\<rparr>]"
  let ?pm = "[\<lparr>role = User, content = js ''a''\<rparr>]"
  let ?cm = "\<lparr>role = Assistant, content = js ''b''\<rparr>"
  have ne: "js ''gpt-4'' \<noteq> ?gpt" by (simp add: js_def)
  have sp: "stored_prompt ?t ?gpt = 10"
    and sc: "stored_completion ?t ?gpt = 0"
    and o: "?t (js ''gpt-4'') = Some \<lparr>promptTokens = Some 7, completionTokens = Some 8\<rparr>"
    using ne by (simp_all add: stored_prompt_def stored_completion_def)
  have p: "countTokens char_encoder ?pm ?gpt = 51"
    and c: "countTokens char_encoder [?cm] ?gpt = 56"
    by (simp_all add: count_char_gpt3 length_js)
  have h1: "\<bar>stored_prompt ?t ?gpt\<bar> < 2 ^ 53"
    and h2: "stored_prompt ?t ?gpt + 2 * int (countTokens char_encoder ?pm ?gpt) < 2 ^ 53"
    and h3: "\<bar>stored_completion ?t ?gpt\<bar> < 2 ^ 53"
    and h4: "stored_completion ?t ?gpt + 2 * int (countTokens char_encoder [?cm] ?gpt) < 2 ^ 53"
    by (simp_all add: sp sc p c)
  from usage_accumulates [OF h1 h2 h3 h4] ne h1 h2 h3 h4 show ?thesis
    by (simp add: sp sc o p c)
qed

text \<open>
  Claim C9 as stated says that two identical calls double both counters relative to
  their values before the calls. From a prompt counter of 10, two calls of 51 prompt
  tokens each give 112, not 20. And the addition is that of doubles: from a stored
  prompt counter of \<open>2 ^ 53\<close>, one call of 51 prompt tokens stores \<open>2 ^ 53 + 52\<close>.
\<close>

theorem usage_accumulates_counterexample:
  "stored_prompt
      (updateTotalTokenUsed char_encoder (js ''gpt-3.5-turbo'')
        [\<lparr>role = User, content = js ''a''\<rparr>] \<lparr>role = Assistant, content = js ''b''\<rparr>
        (updateTotalTokenUsed char_encoder (js ''gpt-3.5-turbo'')
          [\<lparr>role = User, content = js ''a''\<rparr>] \<lparr>role = Assistant, content = js ''b''\<rparr>
          [js ''gpt-3.5-turbo'' \<mapsto> \<lparr>promptTokens = Some 10, completionTokens = None\<rparr>]))
      (js ''gpt-3.5-turbo'')
    \<noteq> 2 * stored_prompt
          [js ''gpt-3.5-turbo'' \<mapsto> \<lparr>promptTokens = Some 10, completionTokens = None\<rparr>]
          (js ''gpt-3.5-turbo'')
   \<and> stored_prompt
      (updateTotalTokenUsed char_encoder (js ''gpt-3.5-turbo'')
        [\<lparr>role = User, content = js ''a''\<rparr>] \<lparr>role = Assistant, content = js ''b''\<rparr>
        [js ''gpt-3.5-turbo'' \<mapsto>
           \<lparr>promptTokens = Some 9007199254740992, completionTokens = Some 0\<rparr>])
      (js ''gpt-3.5-turbo'')
    \<noteq> stored_prompt
        [js ''gpt-3.5-turbo'' \<mapsto>
           \<lparr>promptTokens = Some 9007199254740992, completionTokens = Some 0\<rparr>]
        (js ''gpt-3.5-turbo'')
      + int (countTokens char_encoder [\<lparr>role = User, content = js ''a''\<rparr>]
               (js ''gpt-3.5-turbo''))"
proof -
  let ?gpt = "js ''gpt-3.5-turbo''"
  let ?pm = "[\<lparr>role = User, content = js ''a''\<rparr>]"
  have p: "countTokens char_encoder ?pm ?gpt = 51"
    by (simp add: count_char_gpt3 length_js)
  have small: "stored_prompt [?gpt \<mapsto> \<lparr>promptTokens = Some 10, completionTokens = None\<rparr>] ?gpt = 10"
    by (simp add: stored_prompt_def)
  have big: "stored_prompt [?gpt \<mapsto>
      \<lparr>promptTokens = Some 9007199254740992, completionTokens = Some 0\<rparr>] ?gpt
      = 9007199254740992"
    by (simp add: stored_prompt_def)
  have "js_add (js_add 10 51) 51 = 112"
    by (simp add: js_add_exact)
  with js_add_rounds show ?thesis
    by (simp add: stored_after_update p small big)
qed

end
